theory Spec2Isabelle
  imports Main "HOL-Library.Word"
begin

section \<open>The docker load balancer helper (pkg/docker/loadbalancer.go)\<close>

text \<open>
  The file manages one load-balancer container per cluster: \<open>NewLoadBalancer\<close> looks the
  container up, \<open>Create\<close> provisions it, \<open>UpdateConfiguration\<close> regenerates its
  configuration from the control-plane containers and reloads it, \<open>IP\<close> reads its address
  and \<open>Delete\<close> removes it. Every effect goes through code outside this file (the
  container runtime, the config renderer), so the embedding threads an explicit world
  through those calls and records each call, with its result, as an event.
  Logging (\<open>log.Info\<close>) has no influence on results and is left out; the context argument
  is passed on unchanged by every method and is part of the world.
\<close>

subsection \<open>Errors (github.com/pkg/errors)\<close>

text \<open>
  \<open>errors.New\<close> and \<open>errors.Errorf\<close> build a fresh error from a message,
  \<open>errors.WithStack\<close> annotates an error with a stack trace and \<open>errors.Wrapf\<close> with
  a message and a stack trace. A Go \<open>error\<close> that may be \<open>nil\<close> is an \<open>error option\<close>.
\<close>

datatype error =
    New string
  | WithStack error
  | Wrapf error string

definition Errorf :: "string \<Rightarrow> error" where
  "Errorf msg = New msg"



text \<open>\<open>errors.WithStack\<close> applied to a possibly-nil error: nil stays nil.\<close>

definition WithStack_nil :: "error option \<Rightarrow> error option" where
  "WithStack_nil err = (case err of None \<Rightarrow> None | Some e \<Rightarrow> Some (WithStack e))"

subsection \<open>Data\<close>

text \<open>
  A \<open>types.Node\<close> value is identified by its address; a \<open>*types.Node\<close> is a
  \<open>node option\<close>, \<open>None\<close> being the nil pointer. The struct itself is declared in
  pkg/docker/types, so its methods are parameters of the model (see \<open>env\<close> below).
\<close>

datatype node = Node nat

text \<open>
  \<open>container.FilterBuilder\<close>: the filter is represented by the (key, name, value)
  triples added to it, in the order of the \<open>AddKeyNameValue\<close> calls.
\<close>

type_synonym FilterBuilder = "(string \<times> string \<times> string) list"

definition AddKeyNameValue :: "FilterBuilder \<Rightarrow> string \<Rightarrow> string \<Rightarrow> string \<Rightarrow> FilterBuilder" where
  "AddKeyNameValue filters key nm val = filters @ [(key, nm, val)]"

text \<open>The fields of \<open>loadbalancer.ConfigData\<close> that \<open>UpdateConfiguration\<close> sets.\<close>

record ConfigData =
  ControlPlanePort :: int
  BackendServers :: "string \<rightharpoonup> string"
  EnableStats :: bool


record DockerCluster =
  LoadBalancerImage :: string

text \<open>A call into code outside this file returns its Go result or panics.\<close>

datatype 'a outcome = Returns 'a | Panics

text \<open>The calls made to the outside, each with what it gave back.\<close>

datatype event =
    CallGetContainer FilterBuilder "(node option \<times> error option) outcome"
  | CallCreate string string string string "32 word" "(node option \<times> error option) outcome"
  | CallList FilterBuilder "(node list \<times> error option) outcome"
  | CallIP "node option" "(string \<times> error option) outcome"
  | CallConfig ConfigData "(string \<times> error option) outcome"
  | CallWriteFile node string string "error option outcome"
  | CallKill node string "error option outcome"
  | CallDelete node "error option outcome"


fun is_list :: "event \<Rightarrow> bool" where
  "is_list (CallList _ _) = True"
| "is_list _ = False"

fun is_ip :: "event \<Rightarrow> bool" where
  "is_ip (CallIP _ _) = True"
| "is_ip _ = False"

fun is_render :: "event \<Rightarrow> bool" where
  "is_render (CallConfig _ _) = True"
| "is_render _ = False"

fun is_write :: "event \<Rightarrow> bool" where
  "is_write (CallWriteFile _ _ _ _) = True"
| "is_write _ = False"

fun is_signal :: "event \<Rightarrow> bool" where
  "is_signal (CallKill _ _ _) = True"
| "is_signal _ = False"

fun is_delete :: "event \<Rightarrow> bool" where
  "is_delete (CallDelete _ _) = True"
| "is_delete _ = False"

subsection \<open>What the file takes from outside\<close>

text \<open>
  The package constants, the helpers \<open>getContainer\<close> and \<open>listContainers\<close>, the
  \<open>Manager\<close> that \<open>NewLoadBalancer\<close> installs as \<open>lbCreator\<close>, the renderer
  \<open>loadbalancer.Config\<close> and the methods of \<open>types.Node\<close> are all declared in other
  files. They are parameters here: a call takes the world and returns an outcome and the
  new world. Methods called through a pointer that the file does not test against nil
  (\<open>IP\<close>) receive the pointer; the others receive the node.
\<close>

record 'w env =
  filterLabel :: string
  clusterLabelKey :: string
  nodeRoleLabelKey :: string
  ExternalLoadBalancerNodeRoleValue :: string
  ControlPlaneNodeRoleValue :: string
  loadbalancer_Image :: string
  DefaultImageRepository :: string
  DefaultImageTag :: string
  ConfigPath :: string
  getContainer :: "FilterBuilder \<Rightarrow> 'w \<Rightarrow> (node option \<times> error option) outcome \<times> 'w"
  listContainers :: "FilterBuilder \<Rightarrow> 'w \<Rightarrow> (node list \<times> error option) outcome \<times> 'w"
  Manager_CreateExternalLoadBalancerNode ::
    "string \<Rightarrow> string \<Rightarrow> string \<Rightarrow> string \<Rightarrow> 32 word \<Rightarrow> 'w \<Rightarrow> (node option \<times> error option) outcome \<times> 'w"
  loadbalancer_Config :: "ConfigData \<Rightarrow> (string \<times> error option) outcome"
  Node_IP :: "node option \<Rightarrow> 'w \<Rightarrow> (string \<times> error option) outcome \<times> 'w"
  Node_String :: "node \<Rightarrow> string"
  Node_WriteFile :: "node \<Rightarrow> string \<Rightarrow> string \<Rightarrow> 'w \<Rightarrow> error option outcome \<times> 'w"
  Node_Kill :: "node \<Rightarrow> string \<Rightarrow> 'w \<Rightarrow> error option outcome \<times> 'w"
  Node_Delete :: "node \<Rightarrow> 'w \<Rightarrow> error option outcome \<times> 'w"

text \<open>The struct \<open>LoadBalancer\<close>; \<open>lbCreator\<close> is the interface value it holds.\<close>

record 'w LoadBalancer =
  name :: string
  lbImage :: string
  container :: "node option"
  lbCreator ::
    "string \<Rightarrow> string \<Rightarrow> string \<Rightarrow> string \<Rightarrow> 32 word \<Rightarrow> 'w \<Rightarrow> (node option \<times> error option) outcome \<times> 'w"

subsection \<open>Sequencing calls\<close>

text \<open>
  A computation takes the world and gives an outcome, the events it produced and the new
  world. \<open>andThen\<close> runs the rest of a method after a call; a panic ends the method.
\<close>

type_synonym ('a, 'w) go = "'w \<Rightarrow> 'a outcome \<times> event list \<times> 'w"

definition ret :: "'a \<Rightarrow> ('a, 'w) go" where
  "ret a w = (Returns a, [], w)"

definition andThen :: "('a, 'w) go \<Rightarrow> ('a \<Rightarrow> ('b, 'w) go) \<Rightarrow> ('b, 'w) go" where
  "andThen m f w =
     (case m w of
        (Panics, evs, w') \<Rightarrow> (Panics, evs, w')
      | (Returns a, evs, w') \<Rightarrow>
          (case f a w' of (r, evs', w'') \<Rightarrow> (r, evs @ evs', w'')))"

definition call :: "('a outcome \<Rightarrow> event) \<Rightarrow> ('w \<Rightarrow> 'a outcome \<times> 'w) \<Rightarrow> ('a, 'w) go" where
  "call ev f w = (case f w of (r, w') \<Rightarrow> (r, [ev r], w'))"

subsection \<open>Library functions\<close>

text \<open>\<open>net.JoinHostPort\<close>: a host containing a colon is put in brackets.\<close>

definition JoinHostPort :: "string \<Rightarrow> string \<Rightarrow> string" where
  "JoinHostPort host port =
     (if CHR '':'' \<in> set host then ''['' @ host @ '']:'' @ port else host @ '':'' @ port)"

subsection \<open>The methods\<close>

definition getLoadBalancerImage :: "'w env \<Rightarrow> DockerCluster option \<Rightarrow> string" where
  "getLoadBalancerImage E dockerCluster =
     (let image = loadbalancer_Image E;
          imageRepo = DefaultImageRepository E;
          imageTag = DefaultImageTag E
      in case dockerCluster of
           Some dc \<Rightarrow>
             if LoadBalancerImage dc \<noteq> '''' then LoadBalancerImage dc
             else imageRepo @ ''/'' @ image @ '':'' @ imageTag
         | None \<Rightarrow> imageRepo @ ''/'' @ image @ '':'' @ imageTag)"


definition containerName :: "'w LoadBalancer \<Rightarrow> string" where
  "containerName s = name s @ ''-lb''"


text \<open>The loop of \<open>UpdateConfiguration\<close> over the control-plane nodes.\<close>

fun backendServers_loop ::
  "'w env \<Rightarrow> node list \<Rightarrow> (string \<rightharpoonup> string) \<Rightarrow> (error + (string \<rightharpoonup> string), 'w) go" where
  "backendServers_loop E [] backendServers = ret (Inr backendServers)"
| "backendServers_loop E (n # ns) backendServers =
     andThen (call (CallIP (Some n)) (Node_IP E (Some n)))
       (\<lambda>(controlPlaneIPv4, err).
          case err of
            Some e \<Rightarrow>
              ret (Inl (Wrapf e (''failed to get IP for container '' @ Node_String E n)))
          | None \<Rightarrow>
              backendServers_loop E ns
                (backendServers(Node_String E n \<mapsto> JoinHostPort controlPlaneIPv4 ''6443'')))"

definition UpdateConfiguration :: "'w env \<Rightarrow> 'w LoadBalancer \<Rightarrow> (error option, 'w) go" where
  "UpdateConfiguration E s =
     (case container s of
        None \<Rightarrow>
          ret (Some (New
            ''unable to configure load balancer: load balancer container does not exists''))
      | Some c \<Rightarrow>
          let filters = AddKeyNameValue [] (filterLabel E) (clusterLabelKey E) (name s);
              filters = AddKeyNameValue filters (filterLabel E) (nodeRoleLabelKey E)
                          (ControlPlaneNodeRoleValue E)
          in andThen (call (CallList filters) (listContainers E filters))
               (\<lambda>(controlPlaneNodes, err).
                  case err of
                    Some e \<Rightarrow> ret (Some (WithStack e))
                  | None \<Rightarrow>
          andThen (backendServers_loop E controlPlaneNodes Map.empty)
               (\<lambda>r.
                  case r of
                    Inl e \<Rightarrow> ret (Some e)
                  | Inr backendServers \<Rightarrow>
          let data = \<lparr>ControlPlanePort = 6443,
                      BackendServers = backendServers,
                      EnableStats = True\<rparr>
          in andThen (call (CallConfig data) (\<lambda>w. (loadbalancer_Config E data, w)))
               (\<lambda>(loadBalancerConfig, err).
                  case err of
                    Some e \<Rightarrow> ret (Some (WithStack e))
                  | None \<Rightarrow>
          andThen (call (CallWriteFile c (ConfigPath E) loadBalancerConfig)
                        (Node_WriteFile E c (ConfigPath E) loadBalancerConfig))
               (\<lambda>err.
                  case err of
                    Some e \<Rightarrow> ret (Some (WithStack e))
                  | None \<Rightarrow>
          andThen (call (CallKill c ''SIGHUP'') (Node_Kill E c ''SIGHUP''))
               (\<lambda>err. ret (WithStack_nil err)))))))"

text \<open>\<open>IP\<close> calls the node's method through \<open>s.container\<close> without testing the pointer.\<close>

definition IP :: "'w env \<Rightarrow> 'w LoadBalancer \<Rightarrow> (string \<times> error option, 'w) go" where
  "IP E s =
     andThen (call (CallIP (container s)) (Node_IP E (container s)))
       (\<lambda>(lbIP, err).
          case err of
            Some e \<Rightarrow> ret ('''', Some (WithStack e))
          | None \<Rightarrow>
              if lbIP = '''' then
                ret ('''', Some (Errorf
                  (''load balancer IP cannot be empty: container '' @ containerName s
                   @ '' does not have an associated IP address'')))
              else ret (lbIP, None))"

definition Delete :: "'w env \<Rightarrow> 'w LoadBalancer \<Rightarrow> (error option \<times> 'w LoadBalancer, 'w) go" where
  "Delete E s =
     (case container s of
        Some c \<Rightarrow>
          andThen (call (CallDelete c) (Node_Delete E c))
            (\<lambda>err.
               case err of
                 Some e \<Rightarrow> ret (Some e, s)
               | None \<Rightarrow> ret (None, s\<lparr>container := None\<rparr>))
      | None \<Rightarrow> ret (None, s))"

text \<open>
  The BackendSet of a list of resolved nodes, as the specification describes it: each
  node's identity mapped to its address joined with port 6443. Where two nodes share an
  identity, the later one counts.
\<close>

definition backendSet :: "'w env \<Rightarrow> (node \<times> string) list \<Rightarrow> (string \<rightharpoonup> string)" where
  "backendSet E resolved =
     map_of (rev (map (\<lambda>(n, ip). (Node_String E n, JoinHostPort ip ''6443'')) resolved))"

subsection \<open>Scenarios\<close>



subsection \<open>A fake runtime for concrete runs\<close>

text \<open>
  The world of the fake runtime counts the calls it has answered. Node 0 is the load
  balancer, nodes 1 and 2 are control-plane nodes with addresses, node 9 is a stopped
  container without an address, any other node is unknown to the runtime. A call through
  the nil pointer panics.
\<close>

definition demo_String :: "node \<Rightarrow> string" where
  "demo_String n =
     (case n of Node i \<Rightarrow>
        if i = 0 then ''demo-lb'' else if i = 1 then ''cp-1''
        else if i = 2 then ''cp-2'' else ''cp-gone'')"

definition demo_IP :: "node option \<Rightarrow> nat \<Rightarrow> (string \<times> error option) outcome \<times> nat" where
  "demo_IP p w =
     (case p of
        None \<Rightarrow> (Panics, w)
      | Some (Node i) \<Rightarrow>
          (if i = 0 then Returns (''172.18.0.2'', None)
           else if i = 1 then Returns (''10.0.0.5'', None)
           else if i = 2 then Returns (''10.0.0.6'', None)
           else if i = 9 then Returns ('''', None)
           else Returns ('''', Some (New ''no such container'')),
           Suc w))"

definition demo_render :: "ConfigData \<Rightarrow> string" where
  "demo_render data =
     concat (map (\<lambda>k. case BackendServers data k of
                         None \<Rightarrow> []
                       | Some ep \<Rightarrow> ''server '' @ k @ '' '' @ ep @ ''; '')
                 [''cp-1'', ''cp-2''])"

definition demoEnv :: "nat env" where
  "demoEnv =
     \<lparr>filterLabel = ''label'',
      clusterLabelKey = ''io.x-k8s.kind.cluster'',
      nodeRoleLabelKey = ''io.x-k8s.kind.role'',
      ExternalLoadBalancerNodeRoleValue = ''external-load-balancer'',
      ControlPlaneNodeRoleValue = ''control-plane'',
      loadbalancer_Image = ''haproxy'',
      DefaultImageRepository = ''kindest'',
      DefaultImageTag = ''2.1.1-alpine'',
      ConfigPath = ''/usr/local/etc/haproxy/haproxy.cfg'',
      getContainer = (\<lambda>filters w. (Returns (None, None), Suc w)),
      listContainers = (\<lambda>filters w. (Returns ([Node 1, Node 2], None), Suc w)),
      Manager_CreateExternalLoadBalancerNode =
        (\<lambda>nm img cl addr port w. (Returns (Some (Node 0), None), Suc w)),
      loadbalancer_Config = (\<lambda>data. Returns (demo_render data, None)),
      Node_IP = demo_IP,
      Node_String = demo_String,
      Node_WriteFile = (\<lambda>n path content w. (Returns None, Suc w)),
      Node_Kill = (\<lambda>n sig w. (Returns None, Suc w)),
      Node_Delete = (\<lambda>n w. (Returns None, Suc w))\<rparr>"

text \<open>Variants of the fake runtime in which one call behaves differently.\<close>

definition foundEnv :: "nat env" where
  "foundEnv = demoEnv\<lparr>getContainer := (\<lambda>filters w. (Returns (Some (Node 0), None), Suc w))\<rparr>"

definition createFailsEnv :: "nat env" where
  "createFailsEnv =
     demoEnv\<lparr>Manager_CreateExternalLoadBalancerNode :=
       (\<lambda>nm img cl addr port w. (Returns (None, Some (New ''image not found'')), Suc w))\<rparr>"

definition createFailsWithHandleEnv :: "nat env" where
  "createFailsWithHandleEnv =
     demoEnv\<lparr>Manager_CreateExternalLoadBalancerNode :=
       (\<lambda>nm img cl addr port w. (Returns (Some (Node 0), Some (New ''start failed'')), Suc w))\<rparr>"

definition ipFailsEnv :: "nat env" where
  "ipFailsEnv = demoEnv\<lparr>listContainers := (\<lambda>filters w. (Returns ([Node 1, Node 3], None), Suc w))\<rparr>"

definition noNodesEnv :: "nat env" where
  "noNodesEnv = demoEnv\<lparr>listContainers := (\<lambda>filters w. (Returns ([], None), Suc w))\<rparr>"

definition writeFailsEnv :: "nat env" where
  "writeFailsEnv =
     demoEnv\<lparr>Node_WriteFile :=
       (\<lambda>n path content w. (Returns (Some (New ''no space left on device'')), Suc w))\<rparr>"

definition deleteFailsEnv :: "nat env" where
  "deleteFailsEnv =
     demoEnv\<lparr>Node_Delete := (\<lambda>n w. (Returns (Some (New ''container is in use'')), Suc w))\<rparr>"

text \<open>
  The struct that \<open>NewLoadBalancer\<close> builds for cluster \<open>demo\<close> with the default image
  when the lookup gives the pointer \<open>c\<close>.
\<close>

definition demoLB :: "nat env \<Rightarrow> node option \<Rightarrow> nat LoadBalancer" where
  "demoLB E c =
     \<lparr>name = ''demo'',
      lbImage = ''kindest/haproxy:2.1.1-alpine'',
      container = c,
      lbCreator = Manager_CreateExternalLoadBalancerNode E\<rparr>"

definition demoFilters :: "string \<Rightarrow> FilterBuilder" where
  "demoFilters role =
     [(''label'', ''io.x-k8s.kind.cluster'', ''demo''), (''label'', ''io.x-k8s.kind.role'', role)]"

section \<open>Properties\<close>

subsection \<open>Auxiliary facts\<close>

lemma andThen_call:
  "andThen (call ev f) k w =
     (case f w of
        (Panics, w') \<Rightarrow> (Panics, [ev Panics], w')
      | (Returns a, w') \<Rightarrow> (case k a w' of (r, evs, w'') \<Rightarrow> (r, ev (Returns a) # evs, w'')))"
  by (simp add: andThen_def call_def split: prod.splits outcome.splits)

lemma loop_events_ip:
  "backendServers_loop E ns m w = (r, evs, w') \<Longrightarrow> \<forall>ev\<in>set evs. is_ip ev"
proof (induction ns arbitrary: m w r evs w')
  case Nil
  then show ?case by (simp add: ret_def)
next
  case (Cons n ns)
  show ?case
  proof (cases "Node_IP E (Some n) w")
    case (Pair o1 w1)
    show ?thesis
    proof (cases o1)
      case Panics
      with Pair Cons.prems show ?thesis by (auto simp: andThen_call)
    next
      case (Returns a)
      obtain ip err where a: "a = (ip, err)" by (cases a)
      show ?thesis
      proof (cases err)
        case (Some e)
        with Pair Returns a Cons.prems show ?thesis by (auto simp: andThen_call ret_def)
      next
        case None
        obtain r2 evs2 w2 where rec:
          "backendServers_loop E ns (m(Node_String E n \<mapsto> JoinHostPort ip ''6443'')) w1 = (r2, evs2, w2)"
          by (cases "backendServers_loop E ns (m(Node_String E n \<mapsto> JoinHostPort ip ''6443'')) w1") auto
        from Cons.IH[OF rec] have "\<forall>ev\<in>set evs2. is_ip ev" .
        moreover from Pair Returns a None rec Cons.prems
        have "evs = CallIP (Some n) (Returns (ip, None)) # evs2"
          by (auto simp: andThen_call)
        ultimately show ?thesis by simp
      qed
    qed
  qed
qed

lemma loop_error_event:
  "backendServers_loop E ns m w = (r, evs, w') \<Longrightarrow>
   CallIP p (Returns (ip, Some e)) \<in> set evs \<Longrightarrow>
   \<exists>n. p = Some n \<and> n \<in> set ns \<and>
       r = Returns (Inl (Wrapf e (''failed to get IP for container '' @ Node_String E n)))"
proof (induction ns arbitrary: m w r evs w')
  case Nil
  then show ?case by (simp add: ret_def)
next
  case (Cons n ns)
  show ?case
  proof (cases "Node_IP E (Some n) w")
    case (Pair o1 w1)
    show ?thesis
    proof (cases o1)
      case Panics
      with Pair Cons.prems show ?thesis by (auto simp: andThen_call)
    next
      case (Returns a)
      obtain ip1 err where a: "a = (ip1, err)" by (cases a)
      show ?thesis
      proof (cases err)
        case (Some e1)
        with Pair Returns a Cons.prems show ?thesis by (auto simp: andThen_call ret_def)
      next
        case None
        obtain r2 evs2 w2 where rec:
          "backendServers_loop E ns (m(Node_String E n \<mapsto> JoinHostPort ip1 ''6443'')) w1 = (r2, evs2, w2)"
          by (cases "backendServers_loop E ns (m(Node_String E n \<mapsto> JoinHostPort ip1 ''6443'')) w1") auto
        from Pair Returns a None rec Cons.prems(1)
        have evs: "evs = CallIP (Some n) (Returns (ip1, None)) # evs2" and r: "r = r2"
          by (auto simp: andThen_call)
        with Cons.prems(2) have "CallIP p (Returns (ip, Some e)) \<in> set evs2" by simp
        from Cons.IH[OF rec this] r show ?thesis by auto
      qed
    qed
  qed
qed

lemma backendSet_Cons:
  "m(Node_String E n \<mapsto> JoinHostPort ip ''6443'') ++ backendSet E rest = m ++ backendSet E ((n, ip) # rest)"
proof -
  have a: "backendSet E ((n, ip) # rest)
        = Map.empty(Node_String E n \<mapsto> JoinHostPort ip ''6443'') ++ backendSet E rest"
    by (simp add: backendSet_def del: fun_upd_apply)
  have b: "m ++ Map.empty(Node_String E n \<mapsto> JoinHostPort ip ''6443'')
             = m(Node_String E n \<mapsto> JoinHostPort ip ''6443'')"
    by simp
  show ?thesis
    by (simp only: a map_add_assoc b)
qed

lemma loop_success:
  "backendServers_loop E ns m w = (Returns (Inr m'), evs, w') \<Longrightarrow>
   \<exists>ips. length ips = length ns \<and>
         evs = map (\<lambda>(n, ip). CallIP (Some n) (Returns (ip, None))) (zip ns ips) \<and>
         m' = m ++ backendSet E (zip ns ips)"
proof (induction ns arbitrary: m w evs w')
  case Nil
  then show ?case by (simp add: ret_def backendSet_def)
next
  case (Cons n ns)
  show ?case
  proof (cases "Node_IP E (Some n) w")
    case (Pair o1 w1)
    show ?thesis
    proof (cases o1)
      case Panics
      with Pair Cons.prems show ?thesis by (auto simp: andThen_call)
    next
      case (Returns a)
      obtain ip1 err where a: "a = (ip1, err)" by (cases a)
      show ?thesis
      proof (cases err)
        case (Some e1)
        with Pair Returns a Cons.prems show ?thesis by (auto simp: andThen_call ret_def)
      next
        case None
        obtain r2 evs2 w2 where rec:
          "backendServers_loop E ns (m(Node_String E n \<mapsto> JoinHostPort ip1 ''6443'')) w1 = (r2, evs2, w2)"
          by (cases "backendServers_loop E ns (m(Node_String E n \<mapsto> JoinHostPort ip1 ''6443'')) w1") auto
        from Pair Returns a None rec Cons.prems(1)
        have hd: "evs = CallIP (Some n) (Returns (ip1, None)) # evs2" and r: "r2 = Returns (Inr m')"
          by (auto simp: andThen_call)
        from Cons.IH[OF rec[unfolded r]] obtain ips where ips:
          "length ips = length ns"
          "evs2 = map (\<lambda>(n, ip). CallIP (Some n) (Returns (ip, None))) (zip ns ips)"
          "m' = m(Node_String E n \<mapsto> JoinHostPort ip1 ''6443'') ++ backendSet E (zip ns ips)"
          by blast
        have "m' = m ++ backendSet E (zip (n # ns) (ip1 # ips))"
          using ips(3) by (simp only: backendSet_Cons zip_Cons_Cons)
        with hd ips(1,2) show ?thesis
          by (intro exI[of _ "ip1 # ips"]) simp
      qed
    qed
  qed
qed


lemma loop_success_ip:
  "backendServers_loop E ns m w = (Returns (Inr m'), evs, w') \<Longrightarrow>
   CallIP p (Returns (ip, Some e)) \<notin> set evs"
  by (auto dest!: loop_success simp: in_set_zip)

lemma loop_events_kinds:
  "backendServers_loop E ns m w = (r, evs, w') \<Longrightarrow> ev \<in> set evs \<Longrightarrow>
   \<not> is_render ev \<and> \<not> is_write ev \<and> \<not> is_signal ev \<and> \<not> is_list ev"
  by (drule loop_events_ip, cases ev) auto

lemma UpdateConfiguration_write_shape:
  assumes "UpdateConfiguration E s w = (r, evs, w')"
    and "ev \<in> set evs" and "is_write ev"
  shows "\<exists>c filters nodes ips content rw tl.
           container s = Some c \<and> length ips = length nodes \<and>
           evs = CallList filters (Returns (nodes, None))
                 # map (\<lambda>(n, ip). CallIP (Some n) (Returns (ip, None))) (zip nodes ips)
                 @ CallConfig \<lparr>ControlPlanePort = 6443,
                                BackendServers = backendSet E (zip nodes ips),
                                EnableStats = True\<rparr> (Returns (content, None))
                 # CallWriteFile c (ConfigPath E) content rw # tl \<and>
           loadbalancer_Config E \<lparr>ControlPlanePort = 6443,
                                   BackendServers = backendSet E (zip nodes ips),
                                   EnableStats = True\<rparr> = Returns (content, None) \<and>
           ((rw = Panics \<and> tl = [] \<and> r = Panics)
            \<or> (\<exists>e. rw = Returns (Some e) \<and> tl = [] \<and> r = Returns (Some (WithStack e)))
            \<or> (rw = Returns None \<and>
                (\<exists>rk. tl = [CallKill c ''SIGHUP'' rk] \<and>
                      r = (case rk of Panics \<Rightarrow> Panics | Returns err \<Rightarrow> Returns (WithStack_nil err)))))"
proof -
  from assms obtain c where c: "container s = Some c"
    by (cases "container s") (auto simp: UpdateConfiguration_def ret_def)
  define filters where "filters = AddKeyNameValue (AddKeyNameValue [] (filterLabel E) (clusterLabelKey E) (name s))
       (filterLabel E) (nodeRoleLabelKey E) (ControlPlaneNodeRoleValue E)"
  obtain ol w1 where l: "listContainers E filters w = (ol, w1)"
    by (cases "listContainers E filters w") auto
  from assms c l obtain nodes where ol: "ol = Returns (nodes, None)"
    by (cases ol) (auto simp: UpdateConfiguration_def andThen_call ret_def Let_def filters_def
                        split: option.splits prod.splits)
  obtain rl evl w2 where loop: "backendServers_loop E nodes Map.empty w1 = (rl, evl, w2)"
    by (cases "backendServers_loop E nodes Map.empty w1") auto
  from loop_events_kinds[OF loop] have evl: "\<And>x. x \<in> set evl \<Longrightarrow> \<not> is_write x" by blast
  from assms c l ol loop evl obtain bs where rl: "rl = Returns (Inr bs)"
    by (cases rl) (auto simp: UpdateConfiguration_def andThen_def call_def ret_def Let_def filters_def
                        split: option.splits prod.splits sum.splits)
  from loop_success[OF loop[unfolded rl]] obtain ips where ips:
    "length ips = length nodes"
    "evl = map (\<lambda>(n, ip). CallIP (Some n) (Returns (ip, None))) (zip nodes ips)"
    "bs = backendSet E (zip nodes ips)"
    by auto
  define data where "data = \<lparr>ControlPlanePort = 6443, BackendServers = bs, EnableStats = True\<rparr>"
  have evl_ip: "ev \<notin> set evl"
    using evl assms(3) by blast
  from assms c l ol loop rl evl_ip obtain content where oc:
    "loadbalancer_Config E data = Returns (content, None)"
    by (cases "loadbalancer_Config E data")
       (auto simp: UpdateConfiguration_def andThen_def call_def ret_def Let_def filters_def data_def
             split: option.splits prod.splits)
  obtain rw w3 where wr: "Node_WriteFile E c (ConfigPath E) content w2 = (rw, w3)"
    by (cases "Node_WriteFile E c (ConfigPath E) content w2") auto
  obtain rk w4 where k: "Node_Kill E c ''SIGHUP'' w3 = (rk, w4)"
    by (cases "Node_Kill E c ''SIGHUP'' w3") auto
  define tl where "tl = (if rw = Returns None then [CallKill c ''SIGHUP'' rk] else [])"
  from assms(1) c l ol loop rl oc wr k
  have evs: "evs = CallList filters (Returns (nodes, None)) # evl
                   @ CallConfig data (Returns (content, None))
                   # CallWriteFile c (ConfigPath E) content rw # tl"
    and r: "r = (case rw of Panics \<Rightarrow> Panics
                 | Returns None \<Rightarrow> (case rk of Panics \<Rightarrow> Panics
                                    | Returns err \<Rightarrow> Returns (WithStack_nil err))
                 | Returns (Some e) \<Rightarrow> Returns (Some (WithStack e)))"
    by (auto simp: UpdateConfiguration_def andThen_def call_def ret_def Let_def filters_def data_def
                   tl_def
             split: option.splits prod.splits outcome.splits)
  show ?thesis
    apply (rule exI[of _ c], rule exI[of _ filters], rule exI[of _ nodes], rule exI[of _ ips],
           rule exI[of _ content], rule exI[of _ rw], rule exI[of _ tl])
    using c ips evs r oc
    apply (auto simp: data_def tl_def split: outcome.splits option.splits)
    done
qed


lemma UpdateConfiguration_signal_needs_write:
  assumes "UpdateConfiguration E s w = (r, evs, w')"
    and "ev \<in> set evs" and "is_signal ev"
  shows "\<exists>ev'\<in>set evs. is_write ev'"
  using assms
  by (auto simp: UpdateConfiguration_def andThen_def call_def ret_def Let_def
           split: option.splits prod.splits outcome.splits sum.splits
           dest: loop_events_kinds)

lemma UpdateConfiguration_success_needs_write:
  assumes "UpdateConfiguration E s w = (Returns None, evs, w')"
  shows "\<exists>ev'\<in>set evs. is_write ev'"
  using assms
  by (auto simp: UpdateConfiguration_def andThen_def call_def ret_def Let_def WithStack_nil_def
           split: option.splits prod.splits outcome.splits sum.splits)



lemmas demo_simps = demoEnv_def foundEnv_def createFailsEnv_def createFailsWithHandleEnv_def
  ipFailsEnv_def noNodesEnv_def writeFailsEnv_def deleteFailsEnv_def demoLB_def demoFilters_def
  demo_String_def demo_IP_def demo_render_def
  andThen_def call_def ret_def AddKeyNameValue_def JoinHostPort_def getLoadBalancerImage_def
  containerName_def WithStack_nil_def Errorf_def

subsection \<open>UpdateConfiguration\<close>

text \<open>
  C1. If, during \<open>UpdateConfiguration\<close>, resolving the address of a node fails (a call of
  the node's \<open>IP\<close> method returns an error), the method returns an error, namely that
  error wrapped with the node's name, and the run contains no call of the renderer, no
  \<open>WriteFile\<close> and no \<open>Kill\<close>.
\<close>

theorem UpdateConfiguration_resolution_failure:
  assumes "UpdateConfiguration E s w = (r, evs, w')"
    and "CallIP p (Returns (ip, Some e)) \<in> set evs"
  shows "(\<exists>n. p = Some n \<and>
            r = Returns (Some (Wrapf e (''failed to get IP for container '' @ Node_String E n))))
         \<and> (\<forall>ev\<in>set evs. \<not> is_render ev \<and> \<not> is_write ev \<and> \<not> is_signal ev)"
  using assms
  by (auto simp: UpdateConfiguration_def andThen_def call_def ret_def Let_def
           split: option.splits prod.splits outcome.splits sum.splits
           dest: loop_error_event loop_events_kinds loop_success_ip)


theorem UpdateConfiguration_resolution_failure_witness:
  "UpdateConfiguration ipFailsEnv (demoLB ipFailsEnv (Some (Node 0))) 0 =
     (Returns (Some (Wrapf (New ''no such container'') ''failed to get IP for container cp-gone'')),
      [CallList (demoFilters ''control-plane'') (Returns ([Node 1, Node 3], None)),
       CallIP (Some (Node 1)) (Returns (''10.0.0.5'', None)),
       CallIP (Some (Node 3)) (Returns ('''', Some (New ''no such container'')))], 3)
   \<and> filter is_render
        [CallList (demoFilters ''control-plane'') (Returns ([Node 1, Node 3], None)),
         CallIP (Some (Node 1)) (Returns (''10.0.0.5'', None)),
         CallIP (Some (Node 3)) (Returns ('''', Some (New ''no such container'')))] = []"
proof -
  have run: "UpdateConfiguration ipFailsEnv (demoLB ipFailsEnv (Some (Node 0))) 0 =
     (Returns (Some (Wrapf (New ''no such container'') ''failed to get IP for container cp-gone'')),
      [CallList (demoFilters ''control-plane'') (Returns ([Node 1, Node 3], None)),
       CallIP (Some (Node 1)) (Returns (''10.0.0.5'', None)),
       CallIP (Some (Node 3)) (Returns ('''', Some (New ''no such container'')))], 3)"
    by (simp add: UpdateConfiguration_def demo_simps)
  have failed: "CallIP (Some (Node 3)) (Returns ('''', Some (New ''no such container'')))
      \<in> set [CallList (demoFilters ''control-plane'') (Returns ([Node 1, Node 3], None)),
              CallIP (Some (Node 1)) (Returns (''10.0.0.5'', None)),
              CallIP (Some (Node 3)) (Returns ('''', Some (New ''no such container'')))]"
    by simp
  from UpdateConfiguration_resolution_failure [OF run failed] run
  show ?thesis by (simp add: filter_empty_conv)
qed

text \<open>
  C2. The reload signal is sent only after a successful write: a run in which
  \<open>WriteFile\<close> returns an error returns that error (under \<open>errors.WithStack\<close>) and
  contains no \<open>Kill\<close>; every \<open>Kill\<close> in a run is \<open>SIGHUP\<close> and directly follows a
  \<open>WriteFile\<close> to the config path that returned nil; and a run that returns nil ends with
  such a write followed by a \<open>Kill\<close> that returned nil.
\<close>

theorem UpdateConfiguration_signal_after_write:
  assumes "UpdateConfiguration E s w = (r, evs, w')"
  shows "(CallWriteFile c p content (Returns (Some e)) \<in> set evs \<longrightarrow>
            r = Returns (Some (WithStack e)) \<and> (\<forall>ev\<in>set evs. \<not> is_signal ev))
       \<and> (CallKill c' sig rk \<in> set evs \<longrightarrow>
            sig = ''SIGHUP'' \<and>
            (\<exists>pre content'.
               evs = pre @ [CallWriteFile c' (ConfigPath E) content' (Returns None),
                            CallKill c' sig rk]))
       \<and> (r = Returns None \<longrightarrow>
            (\<exists>pre c'' content''.
               evs = pre @ [CallWriteFile c'' (ConfigPath E) content'' (Returns None),
                            CallKill c'' ''SIGHUP'' (Returns None)]))"
proof -
  have failed_write:
    "r = Returns (Some (WithStack e)) \<and> (\<forall>ev\<in>set evs. \<not> is_signal ev)"
    if wf: "CallWriteFile c p content (Returns (Some e)) \<in> set evs"
    using UpdateConfiguration_write_shape [OF assms wf] wf by (auto simp: in_set_zip)
  have signal: "sig = ''SIGHUP'' \<and>
            (\<exists>pre content'.
               evs = pre @ [CallWriteFile c' (ConfigPath E) content' (Returns None),
                            CallKill c' sig rk])"
    if k: "CallKill c' sig rk \<in> set evs"
  proof -
  from UpdateConfiguration_signal_needs_write [OF assms k]
  obtain ev' where ev': "ev' \<in> set evs" "is_write ev'" by auto
  from UpdateConfiguration_write_shape [OF assms ev'] obtain c0 filters nodes ips content0 rw tl
    where sh: "evs = CallList filters (Returns (nodes, None))
                 # map (\<lambda>(n, ip). CallIP (Some n) (Returns (ip, None))) (zip nodes ips)
                 @ CallConfig \<lparr>ControlPlanePort = 6443,
                                BackendServers = backendSet E (zip nodes ips),
                                EnableStats = True\<rparr> (Returns (content0, None))
                 # CallWriteFile c0 (ConfigPath E) content0 rw # tl"
      and alt: "(rw = Panics \<and> tl = []) \<or> (\<exists>e. rw = Returns (Some e) \<and> tl = [])
                \<or> (rw = Returns None \<and> (\<exists>rk. tl = [CallKill c0 ''SIGHUP'' rk]))"
    by blast
  from k sh have "CallKill c' sig rk \<in> set tl" by (auto simp: in_set_zip)
  with alt have tl: "rw = Returns None" "tl = [CallKill c' sig rk]" "c0 = c'" "sig = ''SIGHUP''"
    by auto
  have "evs = (CallList filters (Returns (nodes, None))
                 # map (\<lambda>(n, ip). CallIP (Some n) (Returns (ip, None))) (zip nodes ips)
                 @ [CallConfig \<lparr>ControlPlanePort = 6443,
                                BackendServers = backendSet E (zip nodes ips),
                                EnableStats = True\<rparr> (Returns (content0, None))])
              @ [CallWriteFile c' (ConfigPath E) content0 (Returns None), CallKill c' sig rk]"
    using sh tl by simp
  with tl(4) show ?thesis
    by blast
  qed
  have success: "\<exists>pre c'' content''.
               evs = pre @ [CallWriteFile c'' (ConfigPath E) content'' (Returns None),
                            CallKill c'' ''SIGHUP'' (Returns None)]"
    if ok: "r = Returns None"
  proof -
  from UpdateConfiguration_success_needs_write [OF assms [unfolded ok]]
  obtain ev' where ev': "ev' \<in> set evs" "is_write ev'" by auto
  from UpdateConfiguration_write_shape [OF assms ev'] obtain c0 filters nodes ips content0 rw tl
    where sh: "evs = CallList filters (Returns (nodes, None))
                 # map (\<lambda>(n, ip). CallIP (Some n) (Returns (ip, None))) (zip nodes ips)
                 @ CallConfig \<lparr>ControlPlanePort = 6443,
                                BackendServers = backendSet E (zip nodes ips),
                                EnableStats = True\<rparr> (Returns (content0, None))
                 # CallWriteFile c0 (ConfigPath E) content0 rw # tl"
      and alt: "(rw = Panics \<and> tl = [] \<and> r = Panics)
            \<or> (\<exists>e. rw = Returns (Some e) \<and> tl = [] \<and> r = Returns (Some (WithStack e)))
            \<or> (rw = Returns None \<and>
                (\<exists>rk. tl = [CallKill c0 ''SIGHUP'' rk] \<and>
                      r = (case rk of Panics \<Rightarrow> Panics | Returns err \<Rightarrow> Returns (WithStack_nil err))))"
    by blast
  from alt ok obtain rk0 where rk0: "rw = Returns None" "tl = [CallKill c0 ''SIGHUP'' rk0]"
      "Returns None = (case rk0 of Panics \<Rightarrow> Panics | Returns err \<Rightarrow> Returns (WithStack_nil err))"
    by auto
  from rk0(3) have "rk0 = Returns None"
    by (cases rk0) (auto simp: WithStack_nil_def split: option.splits)
  with rk0(1,2) have tl: "rw = Returns None" "tl = [CallKill c0 ''SIGHUP'' (Returns None)]"
    by simp_all
  have "evs = (CallList filters (Returns (nodes, None))
                 # map (\<lambda>(n, ip). CallIP (Some n) (Returns (ip, None))) (zip nodes ips)
                 @ [CallConfig \<lparr>ControlPlanePort = 6443,
                                BackendServers = backendSet E (zip nodes ips),
                                EnableStats = True\<rparr> (Returns (content0, None))])
              @ [CallWriteFile c0 (ConfigPath E) content0 (Returns None),
                 CallKill c0 ''SIGHUP'' (Returns None)]"
    using sh tl by simp
  then show ?thesis
    by blast
  qed
  from failed_write signal success show ?thesis
    by blast
qed

theorem UpdateConfiguration_signal_after_write_witness:
  "UpdateConfiguration writeFailsEnv (demoLB writeFailsEnv (Some (Node 0))) 0 =
     (Returns (Some (WithStack (New ''no space left on device''))),
      [CallList (demoFilters ''control-plane'') (Returns ([Node 1, Node 2], None)),
       CallIP (Some (Node 1)) (Returns (''10.0.0.5'', None)),
       CallIP (Some (Node 2)) (Returns (''10.0.0.6'', None)),
       CallConfig \<lparr>ControlPlanePort = 6443,
                    BackendServers = [''cp-1'' \<mapsto> ''10.0.0.5:6443'', ''cp-2'' \<mapsto> ''10.0.0.6:6443''],
                    EnableStats = True\<rparr>
         (Returns (''server cp-1 10.0.0.5:6443; server cp-2 10.0.0.6:6443; '', None)),
       CallWriteFile (Node 0) ''/usr/local/etc/haproxy/haproxy.cfg''
         ''server cp-1 10.0.0.5:6443; server cp-2 10.0.0.6:6443; ''
         (Returns (Some (New ''no space left on device'')))], 4)
   \<and> fst (UpdateConfiguration demoEnv (demoLB demoEnv (Some (Node 0))) 0) = Returns None
   \<and> map is_signal (fst (snd (UpdateConfiguration demoEnv (demoLB demoEnv (Some (Node 0))) 0)))
       = [False, False, False, False, False, True]"
proof -
  have run: "UpdateConfiguration writeFailsEnv (demoLB writeFailsEnv (Some (Node 0))) 0 =
     (Returns (Some (WithStack (New ''no space left on device''))),
      [CallList (demoFilters ''control-plane'') (Returns ([Node 1, Node 2], None)),
       CallIP (Some (Node 1)) (Returns (''10.0.0.5'', None)),
       CallIP (Some (Node 2)) (Returns (''10.0.0.6'', None)),
       CallConfig \<lparr>ControlPlanePort = 6443,
                    BackendServers = [''cp-1'' \<mapsto> ''10.0.0.5:6443'', ''cp-2'' \<mapsto> ''10.0.0.6:6443''],
                    EnableStats = True\<rparr>
         (Returns (''server cp-1 10.0.0.5:6443; server cp-2 10.0.0.6:6443; '', None)),
       CallWriteFile (Node 0) ''/usr/local/etc/haproxy/haproxy.cfg''
         ''server cp-1 10.0.0.5:6443; server cp-2 10.0.0.6:6443; ''
         (Returns (Some (New ''no space left on device'')))], 4)"
    by (simp add: UpdateConfiguration_def demo_simps)
  have ok: "UpdateConfiguration demoEnv (demoLB demoEnv (Some (Node 0))) 0 =
     (Returns None,
      [CallList (demoFilters ''control-plane'') (Returns ([Node 1, Node 2], None)),
       CallIP (Some (Node 1)) (Returns (''10.0.0.5'', None)),
       CallIP (Some (Node 2)) (Returns (''10.0.0.6'', None)),
       CallConfig \<lparr>ControlPlanePort = 6443,
                    BackendServers = [''cp-1'' \<mapsto> ''10.0.0.5:6443'', ''cp-2'' \<mapsto> ''10.0.0.6:6443''],
                    EnableStats = True\<rparr>
         (Returns (''server cp-1 10.0.0.5:6443; server cp-2 10.0.0.6:6443; '', None)),
       CallWriteFile (Node 0) ''/usr/local/etc/haproxy/haproxy.cfg''
         ''server cp-1 10.0.0.5:6443; server cp-2 10.0.0.6:6443; '' (Returns None),
       CallKill (Node 0) ''SIGHUP'' (Returns None)], 5)"
    by (simp add: UpdateConfiguration_def demo_simps)
  from UpdateConfiguration_signal_after_write [OF run] UpdateConfiguration_signal_after_write [OF ok]
    run ok
  show ?thesis by simp
qed

text \<open>
  C5. On a struct with no container, \<open>UpdateConfiguration\<close> returns the error
  "load balancer container does not exists" without any call to the outside: no event is
  produced and the world is unchanged.
\<close>

theorem UpdateConfiguration_not_provisioned:
  assumes "container s = None"
  shows "UpdateConfiguration E s w =
           (Returns (Some (New
              ''unable to configure load balancer: load balancer container does not exists'')),
            [], w)"
  using assms by (simp add: UpdateConfiguration_def ret_def)

theorem UpdateConfiguration_not_provisioned_witness:
  "container (demoLB demoEnv None) = None
   \<and> UpdateConfiguration demoEnv (demoLB demoEnv None) 0 =
       (Returns (Some (New
          ''unable to configure load balancer: load balancer container does not exists'')),
        [], 0)"
proof -
  have absent: "container (demoLB demoEnv None) = None"
    by (simp add: demoLB_def)
  from UpdateConfiguration_not_provisioned [OF absent, of demoEnv 0] absent
  show ?thesis by simp
qed

text \<open>
  C9. In a run of \<open>UpdateConfiguration\<close> that returns nil, the events are: the listing,
  one successful address lookup per listed node, the rendering of the BackendSet of
  those nodes and addresses (with port 6443 and the stats page enabled), the write of
  exactly the rendered text to the config path, and the signal. The text written is the
  renderer's output for that set.
\<close>

theorem UpdateConfiguration_writes_rendered:
  assumes "UpdateConfiguration E s w = (Returns None, evs, w')"
  shows "\<exists>c filters nodes ips content.
           container s = Some c \<and> length ips = length nodes \<and>
           evs = CallList filters (Returns (nodes, None))
                 # map (\<lambda>(n, ip). CallIP (Some n) (Returns (ip, None))) (zip nodes ips)
                 @ [CallConfig \<lparr>ControlPlanePort = 6443,
                                 BackendServers = backendSet E (zip nodes ips),
                                 EnableStats = True\<rparr> (Returns (content, None)),
                    CallWriteFile c (ConfigPath E) content (Returns None),
                    CallKill c ''SIGHUP'' (Returns None)] \<and>
           loadbalancer_Config E \<lparr>ControlPlanePort = 6443,
                                   BackendServers = backendSet E (zip nodes ips),
                                   EnableStats = True\<rparr> = Returns (content, None)"
proof -
  from UpdateConfiguration_success_needs_write [OF assms]
  obtain ev' where ev': "ev' \<in> set evs" "is_write ev'" by auto
  from UpdateConfiguration_write_shape [OF assms ev'] obtain c filters nodes ips content rw tl
    where sh: "container s = Some c" "length ips = length nodes"
      "evs = CallList filters (Returns (nodes, None))
                 # map (\<lambda>(n, ip). CallIP (Some n) (Returns (ip, None))) (zip nodes ips)
                 @ CallConfig \<lparr>ControlPlanePort = 6443,
                                BackendServers = backendSet E (zip nodes ips),
                                EnableStats = True\<rparr> (Returns (content, None))
                 # CallWriteFile c (ConfigPath E) content rw # tl"
      "loadbalancer_Config E \<lparr>ControlPlanePort = 6443,
                                   BackendServers = backendSet E (zip nodes ips),
                                   EnableStats = True\<rparr> = Returns (content, None)"
      and alt: "(rw = Panics \<and> tl = [] \<and> (Returns None :: error option outcome) = Panics)
            \<or> (\<exists>e. rw = Returns (Some e) \<and> tl = [] \<and> Returns None = Returns (Some (WithStack e)))
            \<or> (rw = Returns None \<and>
                (\<exists>rk. tl = [CallKill c ''SIGHUP'' rk] \<and>
                      Returns None = (case rk of Panics \<Rightarrow> Panics
                                      | Returns err \<Rightarrow> Returns (WithStack_nil err))))"
    by blast
  from alt obtain rk0 where rk0: "rw = Returns None" "tl = [CallKill c ''SIGHUP'' rk0]"
      "Returns None = (case rk0 of Panics \<Rightarrow> Panics | Returns err \<Rightarrow> Returns (WithStack_nil err))"
    by auto
  from rk0(3) have "rk0 = Returns None"
    by (cases rk0) (auto simp: WithStack_nil_def split: option.splits)
  with rk0(1,2) sh(3)
  have "evs = CallList filters (Returns (nodes, None))
                 # map (\<lambda>(n, ip). CallIP (Some n) (Returns (ip, None))) (zip nodes ips)
                 @ [CallConfig \<lparr>ControlPlanePort = 6443,
                                 BackendServers = backendSet E (zip nodes ips),
                                 EnableStats = True\<rparr> (Returns (content, None)),
                    CallWriteFile c (ConfigPath E) content (Returns None),
                    CallKill c ''SIGHUP'' (Returns None)]"
    by simp
  with sh(1,2,4) show ?thesis by blast
qed

theorem UpdateConfiguration_writes_rendered_witness:
  "UpdateConfiguration demoEnv (demoLB demoEnv (Some (Node 0))) 0 =
     (Returns None,
      [CallList (demoFilters ''control-plane'') (Returns ([Node 1, Node 2], None)),
       CallIP (Some (Node 1)) (Returns (''10.0.0.5'', None)),
       CallIP (Some (Node 2)) (Returns (''10.0.0.6'', None)),
       CallConfig \<lparr>ControlPlanePort = 6443,
                    BackendServers = [''cp-1'' \<mapsto> ''10.0.0.5:6443'', ''cp-2'' \<mapsto> ''10.0.0.6:6443''],
                    EnableStats = True\<rparr>
         (Returns (''server cp-1 10.0.0.5:6443; server cp-2 10.0.0.6:6443; '', None)),
       CallWriteFile (Node 0) ''/usr/local/etc/haproxy/haproxy.cfg''
         ''server cp-1 10.0.0.5:6443; server cp-2 10.0.0.6:6443; '' (Returns None),
       CallKill (Node 0) ''SIGHUP'' (Returns None)], 5)
   \<and> backendSet demoEnv [(Node 1, ''10.0.0.5''), (Node 2, ''10.0.0.6'')]
       = [''cp-1'' \<mapsto> ''10.0.0.5:6443'', ''cp-2'' \<mapsto> ''10.0.0.6:6443'']
   \<and> loadbalancer_Config demoEnv
         \<lparr>ControlPlanePort = 6443,
          BackendServers = [''cp-1'' \<mapsto> ''10.0.0.5:6443'', ''cp-2'' \<mapsto> ''10.0.0.6:6443''],
          EnableStats = True\<rparr>
       = Returns (''server cp-1 10.0.0.5:6443; server cp-2 10.0.0.6:6443; '', None)"
proof -
  have run: "UpdateConfiguration demoEnv (demoLB demoEnv (Some (Node 0))) 0 =
     (Returns None,
      [CallList (demoFilters ''control-plane'') (Returns ([Node 1, Node 2], None)),
       CallIP (Some (Node 1)) (Returns (''10.0.0.5'', None)),
       CallIP (Some (Node 2)) (Returns (''10.0.0.6'', None)),
       CallConfig \<lparr>ControlPlanePort = 6443,
                    BackendServers = [''cp-1'' \<mapsto> ''10.0.0.5:6443'', ''cp-2'' \<mapsto> ''10.0.0.6:6443''],
                    EnableStats = True\<rparr>
         (Returns (''server cp-1 10.0.0.5:6443; server cp-2 10.0.0.6:6443; '', None)),
       CallWriteFile (Node 0) ''/usr/local/etc/haproxy/haproxy.cfg''
         ''server cp-1 10.0.0.5:6443; server cp-2 10.0.0.6:6443; '' (Returns None),
       CallKill (Node 0) ''SIGHUP'' (Returns None)], 5)"
    by (simp add: UpdateConfiguration_def demo_simps)
  have set: "backendSet demoEnv [(Node 1, ''10.0.0.5''), (Node 2, ''10.0.0.6'')]
       = [''cp-1'' \<mapsto> ''10.0.0.5:6443'', ''cp-2'' \<mapsto> ''10.0.0.6:6443'']"
    by (simp add: backendSet_def demo_simps del: fun_upd_apply)
  have render: "loadbalancer_Config demoEnv
         \<lparr>ControlPlanePort = 6443,
          BackendServers = [''cp-1'' \<mapsto> ''10.0.0.5:6443'', ''cp-2'' \<mapsto> ''10.0.0.6:6443''],
          EnableStats = True\<rparr>
       = Returns (''server cp-1 10.0.0.5:6443; server cp-2 10.0.0.6:6443; '', None)"
    by (simp add: demo_simps)
  from UpdateConfiguration_writes_rendered [OF run] run set render
  show ?thesis by blast
qed

text \<open>
  C10. When the listing returns no control-plane node, \<open>UpdateConfiguration\<close> still
  renders, with the empty BackendSet; if the renderer, the write and the signal succeed,
  the method returns nil after writing that rendering to the config path and sending
  \<open>SIGHUP\<close>.
\<close>

theorem UpdateConfiguration_no_nodes:
  assumes "container s = Some c"
    and "listContainers E
           (AddKeyNameValue
              (AddKeyNameValue [] (filterLabel E) (clusterLabelKey E) (name s))
              (filterLabel E) (nodeRoleLabelKey E) (ControlPlaneNodeRoleValue E)) w
         = (Returns ([], None), w1)"
  shows "(\<exists>filters tl.
            fst (snd (UpdateConfiguration E s w)) =
              CallList filters (Returns ([], None))
              # CallConfig \<lparr>ControlPlanePort = 6443, BackendServers = Map.empty,
                             EnableStats = True\<rparr>
                  (loadbalancer_Config E \<lparr>ControlPlanePort = 6443, BackendServers = Map.empty,
                                           EnableStats = True\<rparr>)
              # tl)
       \<and> (loadbalancer_Config E \<lparr>ControlPlanePort = 6443, BackendServers = Map.empty,
                                   EnableStats = True\<rparr> = Returns (content, None)
          \<and> Node_WriteFile E c (ConfigPath E) content w1 = (Returns None, w2)
          \<and> Node_Kill E c ''SIGHUP'' w2 = (Returns None, w3)
          \<longrightarrow> (\<exists>filters.
                 UpdateConfiguration E s w =
                   (Returns None,
                    [CallList filters (Returns ([], None)),
                     CallConfig \<lparr>ControlPlanePort = 6443, BackendServers = Map.empty,
                                  EnableStats = True\<rparr> (Returns (content, None)),
                     CallWriteFile c (ConfigPath E) content (Returns None),
                     CallKill c ''SIGHUP'' (Returns None)],
                    w3)))"
  using assms
  by (auto simp: UpdateConfiguration_def andThen_def call_def ret_def Let_def WithStack_nil_def
           split: option.splits prod.splits outcome.splits)

theorem UpdateConfiguration_no_nodes_witness:
  "container (demoLB noNodesEnv (Some (Node 0))) = Some (Node 0)
   \<and> listContainers noNodesEnv (demoFilters ''control-plane'') 0 = (Returns ([], None), 1)
   \<and> UpdateConfiguration noNodesEnv (demoLB noNodesEnv (Some (Node 0))) 0 =
       (Returns None,
        [CallList (demoFilters ''control-plane'') (Returns ([], None)),
         CallConfig \<lparr>ControlPlanePort = 6443, BackendServers = Map.empty, EnableStats = True\<rparr>
           (Returns ('''', None)),
         CallWriteFile (Node 0) ''/usr/local/etc/haproxy/haproxy.cfg'' '''' (Returns None),
         CallKill (Node 0) ''SIGHUP'' (Returns None)],
        3)"
proof -
  have prov: "container (demoLB noNodesEnv (Some (Node 0))) = Some (Node 0)"
    by (simp add: demoLB_def)
  have listing: "listContainers noNodesEnv
           (AddKeyNameValue
              (AddKeyNameValue [] (filterLabel noNodesEnv) (clusterLabelKey noNodesEnv)
                 (name (demoLB noNodesEnv (Some (Node 0)))))
              (filterLabel noNodesEnv) (nodeRoleLabelKey noNodesEnv)
              (ControlPlaneNodeRoleValue noNodesEnv)) 0
         = (Returns ([], None), 1)"
    by (simp add: demo_simps)
  have run: "UpdateConfiguration noNodesEnv (demoLB noNodesEnv (Some (Node 0))) 0 =
       (Returns None,
        [CallList (demoFilters ''control-plane'') (Returns ([], None)),
         CallConfig \<lparr>ControlPlanePort = 6443, BackendServers = Map.empty, EnableStats = True\<rparr>
           (Returns ('''', None)),
         CallWriteFile (Node 0) ''/usr/local/etc/haproxy/haproxy.cfg'' '''' (Returns None),
         CallKill (Node 0) ''SIGHUP'' (Returns None)],
        3)"
    by (simp add: UpdateConfiguration_def demo_simps)
  from UpdateConfiguration_no_nodes [OF prov listing, of "''''" 2 3] run prov
  show ?thesis by (simp add: demo_simps)
qed

subsection \<open>Delete\<close>

text \<open>
  C4. On a struct with a container: if the node's \<open>Delete\<close> returns an error, the method
  returns that same error and leaves the struct as it was, so that the next \<open>Delete\<close>
  issues the deletion of the same node again; if it returns nil, the container field is
  cleared. The field changes in no other case. On a struct without a container the
  method returns nil and calls nothing.
\<close>

theorem Delete_keeps_handle_on_failure:
  "(container s = Some c \<and> Node_Delete E c w = (Returns (Some e), w1) \<longrightarrow>
      Delete E s w = (Returns (Some e, s), [CallDelete c (Returns (Some e))], w1) \<and>
      fst (snd (Delete E s w1)) = [CallDelete c (fst (Node_Delete E c w1))])
   \<and> (container s = Some c \<and> Node_Delete E c w = (Returns None, w1) \<longrightarrow>
      Delete E s w =
        (Returns (None, s\<lparr>container := None\<rparr>), [CallDelete c (Returns None)], w1))
   \<and> (container s = None \<longrightarrow> Delete E s w = (Returns (None, s), [], w))
   \<and> (Delete E s w = (Returns (err, s'), evs, w') \<and> container s' \<noteq> container s \<longrightarrow>
      container s' = None \<and> err = None \<and>
      (\<exists>c0. container s = Some c0 \<and> evs = [CallDelete c0 (Returns None)]))"
  by (auto simp: Delete_def andThen_call ret_def split: prod.splits outcome.splits option.splits)

theorem Delete_keeps_handle_on_failure_witness:
  "Delete deleteFailsEnv (demoLB deleteFailsEnv (Some (Node 0))) 0 =
     (Returns (Some (New ''container is in use''), demoLB deleteFailsEnv (Some (Node 0))),
      [CallDelete (Node 0) (Returns (Some (New ''container is in use'')))], 1)
   \<and> fst (snd (Delete deleteFailsEnv (demoLB deleteFailsEnv (Some (Node 0))) 1)) =
       [CallDelete (Node 0) (Returns (Some (New ''container is in use'')))]
   \<and> Delete demoEnv (demoLB demoEnv (Some (Node 0))) 0 =
       (Returns (None, demoLB demoEnv None), [CallDelete (Node 0) (Returns None)], 1)
   \<and> Delete demoEnv (demoLB demoEnv None) 1 = (Returns (None, demoLB demoEnv None), [], 1)"
proof -
  have prov: "container (demoLB deleteFailsEnv (Some (Node 0))) = Some (Node 0)"
    "container (demoLB demoEnv (Some (Node 0))) = Some (Node 0)"
    by (simp_all add: demoLB_def)
  have absent: "container (demoLB demoEnv None) = None"
    by (simp add: demoLB_def)
  have fails: "Node_Delete deleteFailsEnv (Node 0) 0 = (Returns (Some (New ''container is in use'')), 1)"
    "fst (Node_Delete deleteFailsEnv (Node 0) 1) = Returns (Some (New ''container is in use''))"
    by (simp_all add: demo_simps)
  have works: "Node_Delete demoEnv (Node 0) 0 = (Returns None, 1)"
    by (simp add: demo_simps)
  have cleared: "(demoLB demoEnv (Some (Node 0)))\<lparr>container := None\<rparr> = demoLB demoEnv None"
    by (simp add: demoLB_def)
  from Delete_keeps_handle_on_failure
         [of "demoLB deleteFailsEnv (Some (Node 0))" "Node 0" deleteFailsEnv 0
             "New ''container is in use''" 1]
       Delete_keeps_handle_on_failure [of "demoLB demoEnv (Some (Node 0))" "Node 0" demoEnv 0 _ 1]
       Delete_keeps_handle_on_failure [of "demoLB demoEnv None" _ demoEnv 1]
       prov absent fails works cleared
  show ?thesis by simp
qed

subsection \<open>IP\<close>



text \<open>
  C7. On a struct without a container, \<open>UpdateConfiguration\<close> returns an error, but
  \<open>IP\<close> does not: it has no test of the pointer and calls the node's \<open>IP\<close> method
  through nil. What \<open>IP\<close> gives is what that call gives; where the call panics, so does
  \<open>IP\<close>.
\<close>

theorem IP_absent_calls_through_nil:
  assumes "container s = None"
  shows "fst (snd (IP E s w)) = [CallIP None (fst (Node_IP E None w))]
       \<and> (fst (Node_IP E None w) = Panics \<longrightarrow>
            IP E s w = (Panics, [CallIP None Panics], snd (Node_IP E None w)))
       \<and> UpdateConfiguration E s w =
           (Returns (Some (New
              ''unable to configure load balancer: load balancer container does not exists'')),
            [], w)"
  using assms
  by (auto simp: IP_def UpdateConfiguration_def andThen_call ret_def
           split: prod.splits outcome.splits option.splits)

theorem IP_absent_calls_through_nil_witness:
  "Delete demoEnv (demoLB demoEnv (Some (Node 0))) 0 =
     (Returns (None, demoLB demoEnv None), [CallDelete (Node 0) (Returns None)], 1)
   \<and> container (demoLB demoEnv None) = None
   \<and> fst (Node_IP demoEnv None 1) = Panics
   \<and> IP demoEnv (demoLB demoEnv None) 1 = (Panics, [CallIP None Panics], 1)"
proof -
  have deleted: "Delete demoEnv (demoLB demoEnv (Some (Node 0))) 0 =
     (Returns (None, demoLB demoEnv None), [CallDelete (Node 0) (Returns None)], 1)"
    by (simp add: Delete_def demo_simps)
  have absent: "container (demoLB demoEnv None) = None"
    by (simp add: demoLB_def)
  have nil: "fst (Node_IP demoEnv None 1) = Panics" "snd (Node_IP demoEnv None 1) = 1"
    by (simp_all add: demo_simps)
  from IP_absent_calls_through_nil [OF absent, of demoEnv 1] deleted absent nil
  show ?thesis by simp
qed

subsection \<open>Create\<close>







end
